theory Spec2Isabelle
  imports Complex_Main "HOL-Library.Char_ord" "HOL-Library.List_Lexorder" "HOL-Library.Multiset"
begin

section \<open>Python dictionaries\<close>

text \<open>
  A Python \<open>dict\<close> keeps its keys in insertion order and holds every key once. It is
  modelled as an association list: \<open>d.items()\<close> is the list itself, \<open>k in d\<close> is
  \<open>has_key\<close>, \<open>d.get(k, default)\<close> is \<open>get_or\<close>, and the assignment \<open>d[k] = v\<close> is
  \<open>dict_set\<close>, which overwrites in place or appends a new key at the end.
\<close>

type_synonym ('k, 'v) dict = "('k \<times> 'v) list"

definition has_key :: "('k, 'v) dict \<Rightarrow> 'k \<Rightarrow> bool" where
  "has_key d k = (map_of d k \<noteq> None)"

definition get_or :: "('k, 'v) dict \<Rightarrow> 'k \<Rightarrow> 'v \<Rightarrow> 'v" where
  "get_or d k dflt = (case map_of d k of None \<Rightarrow> dflt | Some v \<Rightarrow> v)"

fun dict_set :: "('k, 'v) dict \<Rightarrow> 'k \<Rightarrow> 'v \<Rightarrow> ('k, 'v) dict" where
  "dict_set [] k v = [(k, v)]"
| "dict_set ((k', v') # d) k v =
     (if k' = k then (k, v) # d else (k', v') # dict_set d k v)"

definition dict_values :: "('k, 'v) dict \<Rightarrow> 'v list" where
  "dict_values d = map snd d"

section \<open>Identity hierarchy: users, groups, assignments\<close>

text \<open>
  The values stored by \<open>_fetch_sso_users\<close> and \<open>_fetch_sso_groups\<close>. The fields
  \<open>Sent\<close>, \<open>Reset\<close> and \<open>SubGroups\<close> are written once and never read; they are kept
  so that the records have the shape of the dictionaries.
\<close>

record email =
  Value :: string
  Primary :: bool
  Status :: string

record sso_user =
  DisplayName :: string
  UserName :: string
  Emails :: "email list"
  Active :: bool
  Sent :: bool
  Reset :: bool

record sso_group =
  GroupDisplayName :: string
  Description :: string
  Members :: "string list"
  SubGroups :: "string list"

record assignments =
  User :: "(string, string list) dict"
  Group :: "(string, string list) dict"

text \<open>What the identity store returns for one user: \<open>DisplayName\<close>, \<open>UserName\<close> and the
  fields of an email may be missing, and are read with \<open>.get\<close>.\<close>

record api_email =
  api_Value :: "string option"
  api_Primary :: "bool option"

record api_user =
  api_UserId :: string
  api_DisplayName :: "string option"
  api_UserName :: "string option"
  api_Emails :: "api_email list"

definition fetch_email :: "api_email \<Rightarrow> email" where
  "fetch_email e =
     \<lparr> Value = (case api_Value e of None \<Rightarrow> '''' | Some v \<Rightarrow> v),
       Primary = (case api_Primary e of None \<Rightarrow> False | Some p \<Rightarrow> p),
       Status = (if api_Primary e = Some True then ''Verified'' else ''Not_Verified'') \<rparr>"

definition fetch_user :: "api_user \<Rightarrow> sso_user" where
  "fetch_user u =
     \<lparr> DisplayName =
         (case api_DisplayName u of
            Some n \<Rightarrow> n
          | None \<Rightarrow> (case api_UserName u of Some n \<Rightarrow> n | None \<Rightarrow> ''Unknown'')),
       UserName = (case api_UserName u of None \<Rightarrow> '''' | Some n \<Rightarrow> n),
       Emails = map fetch_email (api_Emails u),
       Active = True,
       Sent = False,
       Reset = False \<rparr>"

text \<open>
  \<open>_fetch_sso_users\<close>: \<open>list_users\<close> either raises (\<open>None\<close>), and the function returns
  the empty dictionary, or returns the users, which are stored one by one under their id.
\<close>

definition fetch_sso_users :: "api_user list option \<Rightarrow> (string, sso_user) dict" where
  "fetch_sso_users response =
     (case response of
        None \<Rightarrow> []
      | Some user_list \<Rightarrow> fold (\<lambda>u users. dict_set users (api_UserId u) (fetch_user u)) user_list [])"

text \<open>\<open>any(account in group_accounts for account in user_accounts)\<close>\<close>

definition overlaps :: "string list \<Rightarrow> string list \<Rightarrow> bool" where
  "overlaps user_accounts group_accounts = (\<exists>account \<in> set user_accounts. account \<in> set group_accounts)"

text \<open>
  \<open>_identify_group_owners\<close>. The owners of a group are collected in a Python \<open>set\<close> and
  turned into a list, whose order Python does not fix; \<open>remdups\<close> of the users in the
  order of the assignments is one such list.
\<close>

definition identify_group_owners ::
  "(string, sso_user) dict \<Rightarrow> (string, sso_group) dict \<Rightarrow> assignments \<Rightarrow> (string, string list) dict"
where
  "identify_group_owners users groups asg =
     fold (\<lambda>(group_id, group_accounts) owners.
             if \<not> has_key groups group_id then owners
             else dict_set owners group_id
                    (remdups (map fst (filter (\<lambda>(user_id, user_accounts).
                        has_key users user_id \<and> overlaps user_accounts group_accounts) (User asg)))))
          (Group asg) []"

text \<open>The entries of the answer: a root user, and an owner or a member of a group.\<close>

record root_entry =
  r_user_id :: string
  r_display_name :: string
  r_username :: string
  r_email :: string
  r_email_status :: string
  r_account_ids :: "string list"
  r_account_id_string :: "string option"
  r_status :: string

record member_entry =
  m_user_id :: string
  m_display_name :: string
  m_username :: string
  m_email :: string
  m_email_status :: string
  m_account_ids :: "string list"
  m_status :: string
  m_is_owner :: bool

record group_entry =
  ge_group_id :: string
  ge_group_name :: string
  ge_description :: string
  ge_account_ids :: "string list"
  ge_owners :: "member_entry list"
  ge_members :: "member_entry list"

record hierarchy =
  h_root_users :: "root_entry list"
  h_groups :: "group_entry list"

text \<open>The primary email of a user and its status: the first email flagged primary, else
  the first email, else the empty string and \<open>Not_Verified\<close>.\<close>

definition primary_email :: "sso_user \<Rightarrow> string \<times> string" where
  "primary_email user =
     (case Emails user of
        [] \<Rightarrow> ('''', ''Not_Verified'')
      | e # es \<Rightarrow>
          (case filter Primary (e # es) of
             p # ps \<Rightarrow> (Value p, Status p)
           | [] \<Rightarrow> (Value e, Status e)))"

fun join :: "string \<Rightarrow> string list \<Rightarrow> string" where
  "join sep [] = ''''"
| "join sep [x] = x"
| "join sep (x # y # ys) = x @ sep @ join sep (y # ys)"

definition status_of :: "sso_user \<Rightarrow> string" where
  "status_of user = (if Active user then ''Enabled'' else ''Disabled'')"

definition root_user_entry :: "assignments \<Rightarrow> string \<Rightarrow> sso_user \<Rightarrow> root_entry" where
  "root_user_entry asg user_id user =
     (let user_accounts = get_or (User asg) user_id [] in
      \<lparr> r_user_id = user_id,
        r_display_name = DisplayName user,
        r_username = UserName user,
        r_email = fst (primary_email user),
        r_email_status = snd (primary_email user),
        r_account_ids = user_accounts,
        r_account_id_string =
          (if user_accounts \<noteq> [] then Some (join '','' (sort user_accounts)) else None),
        r_status = status_of user \<rparr>)"

definition owner_entry :: "assignments \<Rightarrow> string \<Rightarrow> sso_user \<Rightarrow> member_entry" where
  "owner_entry asg owner_id owner =
     \<lparr> m_user_id = owner_id,
       m_display_name = DisplayName owner,
       m_username = UserName owner,
       m_email = fst (primary_email owner),
       m_email_status = snd (primary_email owner),
       m_account_ids = get_or (User asg) owner_id [],
       m_status = status_of owner,
       m_is_owner = True \<rparr>"

definition member_entry_of :: "string \<Rightarrow> sso_user \<Rightarrow> member_entry" where
  "member_entry_of member_id member =
     \<lparr> m_user_id = member_id,
       m_display_name = DisplayName member,
       m_username = UserName member,
       m_email = fst (primary_email member),
       m_email_status = snd (primary_email member),
       m_account_ids = [],
       m_status = status_of member,
       m_is_owner = False \<rparr>"

text \<open>The two sets built at the start of \<open>_build_user_hierarchy\<close>.\<close>

definition group_owners_set :: "(string, string list) dict \<Rightarrow> string set" where
  "group_owners_set owners_of = (\<Union>owner_list \<in> set (dict_values owners_of). set owner_list)"

definition group_members_set :: "(string, sso_group) dict \<Rightarrow> string set" where
  "group_members_set groups = (\<Union>g \<in> set (dict_values groups). set (Members g))"

definition build_root_users ::
  "(string, sso_user) dict \<Rightarrow> (string, sso_group) dict \<Rightarrow> assignments \<Rightarrow> (string, string list) dict
   \<Rightarrow> root_entry list"
where
  "build_root_users users groups asg owners_of =
     map (\<lambda>(user_id, user). root_user_entry asg user_id user)
       (filter (\<lambda>(user_id, user).
           \<not> (user_id \<in> group_owners_set owners_of \<or> user_id \<in> group_members_set groups)) users)"

definition build_group_owners ::
  "(string, sso_user) dict \<Rightarrow> assignments \<Rightarrow> string list \<Rightarrow> member_entry list"
where
  "build_group_owners users asg owner_ids =
     concat (map (\<lambda>owner_id.
        case map_of users owner_id of
          None \<Rightarrow> []
        | Some owner \<Rightarrow> [owner_entry asg owner_id owner]) owner_ids)"

definition build_group_members ::
  "(string, sso_user) dict \<Rightarrow> string list \<Rightarrow> string list \<Rightarrow> member_entry list"
where
  "build_group_members users owner_ids member_ids =
     concat (map (\<lambda>member_id.
        if member_id \<in> set owner_ids then []
        else (case map_of users member_id of
                None \<Rightarrow> []
              | Some member \<Rightarrow> [member_entry_of member_id member])) member_ids)"

definition build_group_hierarchy ::
  "(string, sso_user) dict \<Rightarrow> (string, sso_group) dict \<Rightarrow> assignments \<Rightarrow> (string, string list) dict
   \<Rightarrow> group_entry list"
where
  "build_group_hierarchy users groups asg owners_of =
     concat (map (\<lambda>(gid, g).
        case map_of owners_of gid of
          None \<Rightarrow> []
        | Some owner_ids \<Rightarrow>
            [\<lparr> ge_group_id = gid,
               ge_group_name = GroupDisplayName g,
               ge_description = Description g,
               ge_account_ids = get_or (Group asg) gid [],
               ge_owners = sort_key m_display_name (build_group_owners users asg owner_ids),
               ge_members = sort_key m_display_name
                           (build_group_members users owner_ids (Members g)) \<rparr>]) groups)"

text \<open>\<open>_build_user_hierarchy\<close>; Python's \<open>sorted\<close> is stable, as \<open>sort_key\<close> is.\<close>

definition build_user_hierarchy ::
  "(string, sso_user) dict \<Rightarrow> (string, sso_group) dict \<Rightarrow> assignments \<Rightarrow> (string, string list) dict
   \<Rightarrow> hierarchy"
where
  "build_user_hierarchy users groups asg owners_of =
     \<lparr> h_root_users = sort_key r_display_name (build_root_users users groups asg owners_of),
       h_groups = sort_key ge_group_name (build_group_hierarchy users groups asg owners_of) \<rparr>"

text \<open>
  The part of \<open>get_users\<close> that computes the hierarchy from what the three fetches
  returned. \<open>role_match rf xs\<close> stands for the test
  \<open>rf.lower() in str(xs).lower()\<close> on the text form of a list of account ids.
\<close>

definition truthy :: "string option \<Rightarrow> bool" where
  "truthy s = (case s of None \<Rightarrow> False | Some t \<Rightarrow> t \<noteq> [])"

definition apply_role_filter ::
  "(string \<Rightarrow> string list \<Rightarrow> bool) \<Rightarrow> string \<Rightarrow> assignments \<Rightarrow> hierarchy \<Rightarrow> hierarchy"
where
  "apply_role_filter role_match rf asg H =
     \<lparr> h_root_users =
         filter (\<lambda>user. role_match rf (get_or (User asg) (r_user_id user) [])) (h_root_users H),
       h_groups =
         filter (\<lambda>g. role_match rf (get_or (Group asg) (ge_group_id g) [])) (h_groups H) \<rparr>"

definition get_users_hierarchy ::
  "(string \<Rightarrow> string list \<Rightarrow> bool) \<Rightarrow> api_user list option \<Rightarrow> (string, sso_group) dict \<Rightarrow> assignments
   \<Rightarrow> string option \<Rightarrow> bool \<Rightarrow> bool \<Rightarrow> hierarchy"
where
  "get_users_hierarchy role_match response fetched_groups fetched_assignments
       role_filter include_groups include_assignments =
     (let users = fetch_sso_users response;
          groups = (if include_groups then fetched_groups else []);
          asg = (if include_assignments then fetched_assignments else \<lparr> User = [], Group = [] \<rparr>);
          owners_of = (if include_groups then identify_group_owners users groups asg else []);
          user_hierarchy = build_user_hierarchy users groups asg owners_of
      in if truthy role_filter
         then apply_role_filter role_match (the role_filter) asg user_hierarchy
         else user_hierarchy)"

text \<open>The ids listed under a group, and whether a user is listed under some group of the
  answer or among its root users.\<close>

definition owner_ids_of :: "group_entry \<Rightarrow> string list" where
  "owner_ids_of g = map m_user_id (ge_owners g)"

definition member_ids_of :: "group_entry \<Rightarrow> string list" where
  "member_ids_of g = map m_user_id (ge_members g)"

definition in_some_group :: "string \<Rightarrow> hierarchy \<Rightarrow> bool" where
  "in_some_group uid H =
     list_ex (\<lambda>g. uid \<in> set (owner_ids_of g) \<or> uid \<in> set (member_ids_of g)) (h_groups H)"

definition is_root_user :: "string \<Rightarrow> hierarchy \<Rightarrow> bool" where
  "is_root_user uid H = (uid \<in> set (map r_user_id (h_root_users H)))"

definition all_statuses :: "hierarchy \<Rightarrow> string list" where
  "all_statuses H =
     map r_status (h_root_users H) @
     concat (map (\<lambda>g. map m_status (ge_owners g) @ map m_status (ge_members g)) (h_groups H))"

text \<open>Sample data: three users, a group without account assignments and a group with one.\<close>

definition ann :: sso_user where
  "ann = \<lparr> DisplayName = ''Ann'', UserName = ''ann'', Emails = [], Active = True,
           Sent = False, Reset = False \<rparr>"

definition bob :: sso_user where
  "bob = \<lparr> DisplayName = ''Bob'', UserName = ''bob'',
           Emails = [\<lparr> Value = ''bob@example.org'', Primary = True, Status = ''Verified'' \<rparr>],
           Active = True, Sent = False, Reset = False \<rparr>"

definition cy :: sso_user where
  "cy = \<lparr> DisplayName = ''Cy'', UserName = ''cy'', Emails = [], Active = True,
          Sent = False, Reset = False \<rparr>"

definition team :: sso_group where
  "team = \<lparr> GroupDisplayName = ''Team'', Description = [], Members = [''u1''],
            SubGroups = [] \<rparr>"

definition lab :: sso_group where
  "lab = \<lparr> GroupDisplayName = ''Lab'', Description = [], Members = [''u1'', ''u2''],
           SubGroups = [] \<rparr>"

definition no_assignments :: assignments where
  "no_assignments = \<lparr> User = [], Group = [] \<rparr>"

definition lab_assignments :: assignments where
  "lab_assignments = \<lparr> User = [(''u2'', [''111''])], Group = [(''g2'', [''111'', ''222''])] \<rparr>"

definition api_users_sample :: "api_user list" where
  "api_users_sample =
     [\<lparr> api_UserId = ''u1'', api_DisplayName = Some ''Ann'', api_UserName = Some ''ann'',
         api_Emails = [] \<rparr>,
      \<lparr> api_UserId = ''u2'', api_DisplayName = None, api_UserName = Some ''bob'',
         api_Emails = [\<lparr> api_Value = Some ''bob@example.org'', api_Primary = Some True \<rparr>] \<rparr>,
      \<lparr> api_UserId = ''u3'', api_DisplayName = Some ''Cy'', api_UserName = None,
         api_Emails = [] \<rparr>]"

definition sample_groups :: "(string, sso_group) dict" where
  "sample_groups = [(''g1'', team), (''g2'', lab)]"

definition always :: "string \<Rightarrow> string list \<Rightarrow> bool" where
  "always rf xs = True"

text \<open>Two answers of \<open>get_users\<close> without a role filter: with both groups and the
  assignments of the second, and with the first group alone, which has no assignment.\<close>

definition sample_hierarchy :: hierarchy where
  "sample_hierarchy =
     get_users_hierarchy always (Some api_users_sample) sample_groups lab_assignments None True True"

definition team_hierarchy :: hierarchy where
  "team_hierarchy =
     get_users_hierarchy always (Some api_users_sample) [(''g1'', team)] no_assignments None True True"

section \<open>Scoped client cache\<close>

text \<open>
  The two globals \<open>institutions_credentials\<close> and \<open>aws_clients_cache\<close> form the state.
  A client is an object: \<open>client_obj\<close> is its identity, taken from a counter of the state
  at construction, and the other fields are what \<open>boto3.client\<close> was given.
  \<open>boto3.client\<close> may raise; \<open>constructs service region\<close> tells whether it returns.
\<close>

record credentials =
  aws_access_key_id :: string
  aws_secret_access_key :: string

record client =
  client_obj :: nat
  client_service :: string
  client_key_id :: string
  client_secret :: string
  client_region :: string

record server_state =
  institutions_credentials :: "(string, credentials) dict option"
  aws_clients_cache :: "(string, client) dict"
  next_obj :: nat

definition get_available_institutions :: "server_state \<Rightarrow> string list" where
  "get_available_institutions st =
     (case institutions_credentials st of None \<Rightarrow> [] | Some creds \<Rightarrow> map fst creds)"

definition get_institution_credentials :: "server_state \<Rightarrow> string \<Rightarrow> credentials option" where
  "get_institution_credentials st institution_name =
     (case institutions_credentials st of
        None \<Rightarrow> None
      | Some creds \<Rightarrow> (if creds = [] then None else map_of creds institution_name))"

definition validate_institution :: "server_state \<Rightarrow> string \<Rightarrow> bool" where
  "validate_institution st institution_name =
     has_key (case institutions_credentials st of None \<Rightarrow> [] | Some creds \<Rightarrow> creds) institution_name"

definition cache_key :: "string \<Rightarrow> string \<Rightarrow> string \<Rightarrow> string" where
  "cache_key service institution region = service @ ''_'' @ institution @ ''_'' @ region"

definition get_aws_client ::
  "(string \<Rightarrow> string \<Rightarrow> bool) \<Rightarrow> server_state \<Rightarrow> string \<Rightarrow> string \<Rightarrow> string
   \<Rightarrow> client option \<times> server_state"
where
  "get_aws_client constructs st service institution region =
     (let key = cache_key service institution region in
      case map_of (aws_clients_cache st) key of
        Some cached \<Rightarrow> (Some cached, st)
      | None \<Rightarrow>
          (case get_institution_credentials st institution of
             None \<Rightarrow> (None, st)
           | Some cred \<Rightarrow>
               if \<not> constructs service region then (None, st)
               else
                 (let new = \<lparr> client_obj = next_obj st,
                               client_service = service,
                               client_key_id = aws_access_key_id cred,
                               client_secret = aws_secret_access_key cred,
                               client_region = region \<rparr>
                  in (Some new,
                      st\<lparr> aws_clients_cache := dict_set (aws_clients_cache st) key new,
                          next_obj := next_obj st + 1 \<rparr>))))"

text \<open>Two tenants whose names differ by a suffix with an underscore.\<close>

definition two_tenants :: server_state where
  "two_tenants =
     \<lparr> institutions_credentials =
         Some [(''uni'', \<lparr> aws_access_key_id = ''AK-UNI'', aws_secret_access_key = ''S-UNI'' \<rparr>),
               (''uni_lab'', \<lparr> aws_access_key_id = ''AK-LAB'', aws_secret_access_key = ''S-LAB'' \<rparr>)],
       aws_clients_cache = [],
       next_obj = 0 \<rparr>"

definition constructs_all :: "string \<Rightarrow> string \<Rightarrow> bool" where
  "constructs_all service region = True"

section \<open>Organization tree walk\<close>

text \<open>
  The organization as \<open>list_organizational_units_for_parent\<close> serves it: a unit has an
  id, a name and the pages of its child units. A listing that raises \<open>ClientError\<close> ends
  the loop over the pages, and what was appended before stays: such a listing is the
  pages delivered before the failure.
\<close>

datatype org_unit = OrgUnit (unit_id: string) (unit_name: string) (unit_pages: "org_unit list list")

record ou =
  OuId :: string
  OuName :: string
  Level :: nat
  ParentId :: string

text \<open>\<open>get_all_ous\<close>: the outer loop runs over the pages, the inner one over the units of a
  page; each unit is appended, then the units below it.\<close>

fun get_all_ous :: "string \<Rightarrow> nat \<Rightarrow> org_unit list list \<Rightarrow> ou list"
  and get_page_ous :: "string \<Rightarrow> nat \<Rightarrow> org_unit list \<Rightarrow> ou list"
where
  "get_all_ous parent_id level [] = []"
| "get_all_ous parent_id level (page # pages) =
     get_page_ous parent_id level page @ get_all_ous parent_id level pages"
| "get_page_ous parent_id level [] = []"
| "get_page_ous parent_id level (OrgUnit i n below # units) =
     \<lparr> OuId = i, OuName = n, Level = level, ParentId = parent_id \<rparr>
       # get_all_ous i (level + 1) below
       @ get_page_ous parent_id level units"

text \<open>\<open>max([ou.get('Level', 0) for ou in all_ous]) if all_ous else 0\<close>\<close>

definition max_ou_level :: "ou list \<Rightarrow> nat" where
  "max_ou_level all_ous = (if all_ous \<noteq> [] then Max (set (map Level all_ous)) else 0)"

text \<open>The depth of the tree under a parent: the number of edges from the parent down to
  its deepest unit.\<close>

fun depth :: "org_unit list list \<Rightarrow> nat"
  and page_depth :: "org_unit list \<Rightarrow> nat"
where
  "depth [] = 0"
| "depth (page # pages) = max (page_depth page) (depth pages)"
| "page_depth [] = 0"
| "page_depth (OrgUnit i n below # units) = max (1 + depth below) (page_depth units)"

definition single_unit :: "org_unit list list" where
  "single_unit = [[OrgUnit ''ou-1'' ''Research'' []]]"

definition three_units :: "org_unit list list" where
  "three_units =
     [[OrgUnit ''ou-1'' ''Research'' [[OrgUnit ''ou-3'' ''Physics'' []]]],
      [OrgUnit ''ou-2'' ''Teaching'' []]]"

text \<open>The highest level of a list of units, \<open>0\<close> for the empty list.\<close>

definition top_level :: "ou list \<Rightarrow> nat" where
  "top_level xs = Max (insert 0 (Level ` set xs))"

section \<open>Floating-point numbers\<close>







section \<open>Cost aggregation\<close>

text \<open>
  A group of a Cost Explorer result: \<open>key_account\<close> is \<open>Keys[0]\<close>, \<open>key_service\<close> is
  \<open>Keys[1]\<close>;
  \<open>Amount\<close> is the number its decimal string denotes, which \<open>float(...)\<close> rounds.
\<close>

record cost_group =
  key_account :: string
  key_service :: string
  Amount :: rat
  Unit :: string

record result_by_time =
  Start :: string
  Groups :: "cost_group list"







text \<open>The (date, group) records of the pages, in the order in which they are processed.\<close>

definition records_of :: "result_by_time list \<Rightarrow> (string \<times> cost_group) list" where
  "records_of raw_data = concat (map (\<lambda>result. map (\<lambda>g. (Start result, g)) (Groups result)) raw_data)"





section \<open>Budget analysis\<close>


















section \<open>Tool entry checks\<close>

text \<open>
  A tool answers with a dictionary: \<open>success\<close> and \<open>data\<close>, or \<open>success = False\<close> and
  an \<open>error\<close> text. The texts written before a tool touches AWS are constructors here:
  \<open>Institution_not_found i names\<close> is
  \<open>Institution 'i' not found. Available institutions: names\<close>, and
  \<open>Inia_not_available\<close> is \<open>inia module not available. ...\<close>. Everything a tool does
  after these checks runs under its \<open>try\<close> and ends in an answer too; it is the
  argument \<open>rest\<close>.
\<close>

datatype failure =
    Institution_not_found string "string list"
  | Inia_not_available
  | Other_failure string

datatype data =
    Available_institutions "string list" nat
  | Tool_data string

datatype response = Success data | Failure failure

definition institution_not_found :: "server_state \<Rightarrow> string \<Rightarrow> response" where
  "institution_not_found st institution =
     Failure (Institution_not_found institution (get_available_institutions st))"

definition get_institutions :: "server_state \<Rightarrow> string option \<Rightarrow> response \<Rightarrow> response" where
  "get_institutions st institution rest =
     (if \<not> truthy institution
      then Success (Available_institutions (get_available_institutions st)
                      (length (get_available_institutions st)))
      else if \<not> validate_institution st (the institution)
      then institution_not_found st (the institution)
      else rest)"

definition get_projects :: "server_state \<Rightarrow> string \<Rightarrow> response \<Rightarrow> response" where
  "get_projects st institution rest =
     (if \<not> validate_institution st institution then institution_not_found st institution
      else rest)"

definition get_users :: "server_state \<Rightarrow> string \<Rightarrow> response \<Rightarrow> response" where
  "get_users st institution rest =
     (if \<not> validate_institution st institution then institution_not_found st institution
      else rest)"

definition get_tags :: "server_state \<Rightarrow> string \<Rightarrow> response \<Rightarrow> response" where
  "get_tags st institution rest =
     (if \<not> validate_institution st institution then institution_not_found st institution
      else rest)"

definition check_budget :: "server_state \<Rightarrow> string \<Rightarrow> response \<Rightarrow> response" where
  "check_budget st institution rest =
     (if \<not> validate_institution st institution then institution_not_found st institution
      else rest)"

text \<open>\<open>INIA_AVAILABLE\<close> is set once, when the module is loaded.\<close>

definition verify_email :: "bool \<Rightarrow> server_state \<Rightarrow> string \<Rightarrow> response \<Rightarrow> response" where
  "verify_email INIA_AVAILABLE st institution rest =
     (if \<not> INIA_AVAILABLE then Failure Inia_not_available
      else if \<not> validate_institution st institution then institution_not_found st institution
      else rest)"

definition reset_password :: "bool \<Rightarrow> server_state \<Rightarrow> string \<Rightarrow> response \<Rightarrow> response" where
  "reset_password INIA_AVAILABLE st institution rest =
     (if \<not> INIA_AVAILABLE then Failure Inia_not_available
      else if \<not> validate_institution st institution then institution_not_found st institution
      else rest)"

definition sample_rest :: response where
  "sample_rest = Success (Tool_data ''done'')"

section \<open>Date range of the cost analysis\<close>

datatype date = Date (year: int) (month: int) (day: int)

datatype py_error = ValueError | OverflowError

definition is_leap :: "int \<Rightarrow> bool" where
  "is_leap y = (y mod 4 = 0 \<and> (y mod 100 \<noteq> 0 \<or> y mod 400 = 0))"

definition days_in_month :: "int \<Rightarrow> int \<Rightarrow> int" where
  "days_in_month y m =
     (if m = 2 then (if is_leap y then 29 else 28)
      else if m = 4 \<or> m = 6 \<or> m = 9 \<or> m = 11 then 30
      else 31)"

definition valid_date :: "date \<Rightarrow> bool" where
  "valid_date d =
     (1 \<le> year d \<and> year d \<le> 9999 \<and> 1 \<le> month d \<and> month d \<le> 12 \<and>
      1 \<le> day d \<and> day d \<le> days_in_month (year d) (month d))"

text \<open>\<open>d.replace(day=1)\<close>, and \<open>d - timedelta(days=1)\<close>, which raises \<open>OverflowError\<close>
  before the first day of year 1.\<close>

definition replace_day_1 :: "date \<Rightarrow> date" where
  "replace_day_1 d = Date (year d) (month d) 1"

definition minus_one_day :: "date \<Rightarrow> py_error + date" where
  "minus_one_day d =
     (if 1 < day d then Inr (Date (year d) (month d) (day d - 1))
      else if 1 < month d
      then Inr (Date (year d) (month d - 1) (days_in_month (year d) (month d - 1)))
      else if 1 < year d then Inr (Date (year d - 1) 12 31)
      else Inl OverflowError)"

text \<open>\<open>s.replace('Z', '+00:00')\<close>\<close>

definition replace_Z :: "string \<Rightarrow> string" where
  "replace_Z s = concat (map (\<lambda>c. if c = CHR ''Z'' then ''+00:00'' else [c]) s)"

text \<open>
  \<open>_get_date_range\<close>. \<open>today\<close> is the date of \<open>datetime.now(timezone.utc)\<close>;
  \<open>fromisoformat\<close> and \<open>strptime\<close> are the two parsers of the library, giving the date
  of the parsed time, or \<open>None\<close> where they raise \<open>ValueError\<close>.
\<close>

definition get_date_range ::
  "(string \<Rightarrow> date option) \<Rightarrow> (string \<Rightarrow> date option) \<Rightarrow> date
   \<Rightarrow> string option \<Rightarrow> string option \<Rightarrow> string option \<Rightarrow> py_error + (date \<times> date)"
where
  "get_date_range fromisoformat strptime today period start_date end_date =
     (if truthy start_date \<and> truthy end_date then
        (case (fromisoformat (replace_Z (the start_date)),
               fromisoformat (replace_Z (the end_date))) of
           (Some start, Some end) \<Rightarrow> Inr (start, end)
         | _ \<Rightarrow>
           (case (strptime (take 10 (the start_date)), strptime (take 10 (the end_date))) of
              (Some start, Some end) \<Rightarrow> Inr (start, end)
            | _ \<Rightarrow> Inl ValueError))
      else if period = Some ''past_month'' then
        (case minus_one_day (replace_day_1 today) of
           Inl e \<Rightarrow> Inl e
         | Inr last_day_previous \<Rightarrow> Inr (replace_day_1 last_day_previous, last_day_previous))
      else if period = Some ''current_month'' then Inr (replace_day_1 today, today)
      else Inr (replace_day_1 today, today))"

text \<open>The calendar month before the month of a date.\<close>

definition previous_month :: "date \<Rightarrow> int \<times> int" where
  "previous_month d = (if month d = 1 then (year d - 1, 12) else (year d, month d - 1))"

definition no_parse :: "string \<Rightarrow> date option" where
  "no_parse s = None"

section \<open>Properties of the identity hierarchy\<close>

lemma owner_ids_subset: "set (map m_user_id (build_group_owners users asg ids)) \<subseteq> set ids"
  by (induction ids) (auto simp: build_group_owners_def owner_entry_def split: option.splits)

lemma member_ids_subset:
  "set (map m_user_id (build_group_members users oids mids)) \<subseteq> set mids - set oids"
  by (induction mids)
     (auto simp: build_group_members_def member_entry_of_def split: option.splits if_splits)

lemma group_hierarchy_entry:
  assumes "g \<in> set (build_group_hierarchy users groups asg owners_of)"
  shows "\<exists>grp oids. (ge_group_id g, grp) \<in> set groups \<and>
    map_of owners_of (ge_group_id g) = Some oids \<and>
    ge_owners g = sort_key m_display_name (build_group_owners users asg oids) \<and>
    ge_members g = sort_key m_display_name (build_group_members users oids (Members grp))"
proof -
  from assms obtain gid grp where in_groups: "(gid, grp) \<in> set groups"
    and g: "g \<in> set (case map_of owners_of gid of None \<Rightarrow> [] | Some owner_ids \<Rightarrow>
            [\<lparr> ge_group_id = gid,
               ge_group_name = GroupDisplayName grp,
               ge_description = Description grp,
               ge_account_ids = get_or (Group asg) gid [],
               ge_owners = sort_key m_display_name (build_group_owners users asg owner_ids),
               ge_members = sort_key m_display_name
                           (build_group_members users owner_ids (Members grp)) \<rparr>])"
    by (auto simp: build_group_hierarchy_def)
  from g obtain oids where "map_of owners_of gid = Some oids"
    by (cases "map_of owners_of gid") auto
  with g in_groups show ?thesis by auto
qed

lemma group_entry_ids:
  assumes "g \<in> set (h_groups (build_user_hierarchy users groups asg owners_of))"
  shows "\<exists>grp oids. (ge_group_id g, grp) \<in> set groups \<and>
    map_of owners_of (ge_group_id g) = Some oids \<and>
    set (owner_ids_of g) \<subseteq> set oids \<and>
    set (member_ids_of g) \<subseteq> set (Members grp) - set oids"
proof -
  from assms have "g \<in> set (build_group_hierarchy users groups asg owners_of)"
    by (simp add: build_user_hierarchy_def)
  from group_hierarchy_entry [OF this] obtain grp oids where
    e: "(ge_group_id g, grp) \<in> set groups" "map_of owners_of (ge_group_id g) = Some oids"
      "ge_owners g = sort_key m_display_name (build_group_owners users asg oids)"
      "ge_members g = sort_key m_display_name (build_group_members users oids (Members grp))"
    by blast
  have "set (owner_ids_of g) \<subseteq> set oids"
    using owner_ids_subset [of users asg oids] by (simp add: owner_ids_of_def e)
  moreover have "set (member_ids_of g) \<subseteq> set (Members grp) - set oids"
    using member_ids_subset [of users oids "Members grp"] by (simp add: member_ids_of_def e)
  ultimately show ?thesis using e by blast
qed

lemma owners_in_set: "map_of owners_of gid = Some oids \<Longrightarrow> set oids \<subseteq> group_owners_set owners_of"
  by (force simp: group_owners_set_def dict_values_def dest: map_of_SomeD)

lemma members_in_set: "(gid, grp) \<in> set groups \<Longrightarrow> set (Members grp) \<subseteq> group_members_set groups"
  by (force simp: group_members_set_def dict_values_def)

lemma root_user_ids:
  "set (map r_user_id (build_root_users users groups asg owners_of)) =
     {uid \<in> fst ` set users. uid \<notin> group_owners_set owners_of \<and> uid \<notin> group_members_set groups}"
  by (force simp: build_root_users_def root_user_entry_def Let_def)

lemma has_key_iff: "has_key d k \<longleftrightarrow> k \<in> fst ` set d"
  by (simp add: has_key_def map_of_eq_None_iff)

lemma is_root_user_iff:
  "is_root_user uid (build_user_hierarchy users groups asg owners_of) \<longleftrightarrow>
     has_key users uid \<and> uid \<notin> group_owners_set owners_of \<and> uid \<notin> group_members_set groups"
  using root_user_ids [of users groups asg owners_of]
  by (auto simp: is_root_user_def build_user_hierarchy_def has_key_iff)

lemma in_some_group_covered:
  assumes "in_some_group uid (build_user_hierarchy users groups asg owners_of)"
  shows "uid \<in> group_owners_set owners_of \<or> uid \<in> group_members_set groups"
proof -
  from assms obtain g where g: "g \<in> set (h_groups (build_user_hierarchy users groups asg owners_of))"
    and uid: "uid \<in> set (owner_ids_of g) \<or> uid \<in> set (member_ids_of g)"
    by (auto simp: in_some_group_def list_ex_iff)
  from group_entry_ids [OF g] obtain grp oids where
    e: "(ge_group_id g, grp) \<in> set groups" "map_of owners_of (ge_group_id g) = Some oids"
       "set (owner_ids_of g) \<subseteq> set oids" "set (member_ids_of g) \<subseteq> set (Members grp) - set oids"
    by blast
  from uid show ?thesis
    using e owners_in_set [OF e(2)] members_in_set [OF e(1)] by blast
qed

text \<open>
  Claim C1, as stated, fails: a group without account assignments is not among the groups
  of the answer, yet its members are kept out of the root users. In \<open>team_hierarchy\<close>
  user \<open>u1\<close> is listed under no group and is no root user.
\<close>

theorem root_users_of_ungrouped_member_counterexample:
  "\<not> (is_root_user ''u1'' team_hierarchy \<longleftrightarrow> \<not> in_some_group ''u1'' team_hierarchy)"
  by code_simp

text \<open>
  Claim C1, amended. A user appears in \<open>root_users\<close> of \<open>_build_user_hierarchy\<close> if
  and only if it is a user that is in the \<open>Members\<close> list of no group it was given and in
  no list of owners; such a user is absent from the owners and the members of every
  group of the answer.
\<close>

theorem root_user_exclusivity:
  "(is_root_user uid (build_user_hierarchy users groups asg owners_of) \<longleftrightarrow>
      has_key users uid \<and> uid \<notin> group_owners_set owners_of \<and> uid \<notin> group_members_set groups) \<and>
   (is_root_user uid (build_user_hierarchy users groups asg owners_of) \<longrightarrow>
      \<not> in_some_group uid (build_user_hierarchy users groups asg owners_of))"
  using is_root_user_iff [of uid users groups asg owners_of]
    in_some_group_covered [of uid users groups asg owners_of]
  by blast

lemma sample_hierarchy_unfold:
  "sample_hierarchy =
     build_user_hierarchy (fetch_sso_users (Some api_users_sample)) sample_groups lab_assignments
       (identify_group_owners (fetch_sso_users (Some api_users_sample)) sample_groups lab_assignments)"
  by (simp add: sample_hierarchy_def get_users_hierarchy_def truthy_def Let_def)

text \<open>In \<open>sample_hierarchy\<close> user \<open>u3\<close> is a root user and under no group, and \<open>u2\<close>,
  an owner, is no root user.\<close>

theorem root_user_exclusivity_witness:
  "is_root_user ''u3'' sample_hierarchy \<and> \<not> in_some_group ''u3'' sample_hierarchy \<and>
   \<not> is_root_user ''u2'' sample_hierarchy \<and> in_some_group ''u2'' sample_hierarchy"
proof -
  have root: "is_root_user ''u3'' sample_hierarchy" by code_simp
  have other: "\<not> is_root_user ''u2'' sample_hierarchy \<and> in_some_group ''u2'' sample_hierarchy"
    by code_simp
  from root have "\<not> in_some_group ''u3'' sample_hierarchy"
    using root_user_exclusivity [of "''u3''" "fetch_sso_users (Some api_users_sample)"
        sample_groups lab_assignments
        "identify_group_owners (fetch_sso_users (Some api_users_sample)) sample_groups lab_assignments"]
    by (simp add: sample_hierarchy_unfold)
  with root other show ?thesis by simp
qed


lemma get_users_groups_subset:
  "set (h_groups (get_users_hierarchy role_match response fg fa rf ig ia)) \<subseteq>
   set (h_groups (build_user_hierarchy (fetch_sso_users response)
      (if ig then fg else [])
      (if ia then fa else \<lparr> User = [], Group = [] \<rparr>)
      (if ig then identify_group_owners (fetch_sso_users response) (if ig then fg else [])
                    (if ia then fa else \<lparr> User = [], Group = [] \<rparr>) else [])))"
  by (auto simp: get_users_hierarchy_def Let_def apply_role_filter_def)

text \<open>
  Claim C8. For every group of the hierarchy returned by \<open>get_users\<close>, no user id is
  both among its owners and among its members, and no inferred owner of the group is
  among its members, whatever the \<open>Members\<close> list of the identity store says.
\<close>

theorem owners_and_members_disjoint:
  assumes "g \<in> set (h_groups (get_users_hierarchy role_match response fetched_groups
                fetched_assignments role_filter include_groups include_assignments))"
  shows "set (owner_ids_of g) \<inter> set (member_ids_of g) = {} \<and>
         set (get_or (identify_group_owners (fetch_sso_users response) fetched_groups
                (if include_assignments then fetched_assignments else \<lparr> User = [], Group = [] \<rparr>))
                (ge_group_id g) []) \<inter> set (member_ids_of g) = {}"
proof -
  let ?asg = "if include_assignments then fetched_assignments else \<lparr> User = [], Group = [] \<rparr>"
  let ?users = "fetch_sso_users response"
  let ?groups = "if include_groups then fetched_groups else []"
  let ?owners = "if include_groups then identify_group_owners ?users ?groups ?asg else []"
  from assms get_users_groups_subset
  have g: "g \<in> set (h_groups (build_user_hierarchy ?users ?groups ?asg ?owners))"
    by blast
  from group_entry_ids [OF g] obtain grp :: sso_group and oids where
    e: "map_of ?owners (ge_group_id g) = Some oids"
       "set (owner_ids_of g) \<subseteq> set oids" "set (member_ids_of g) \<subseteq> set (Members grp) - set oids"
    by blast
  from e(1) have ig: include_groups by (auto split: if_splits)
  with e(1) have "get_or (identify_group_owners ?users fetched_groups ?asg) (ge_group_id g) [] = oids"
    by (simp add: get_or_def)
  with e show ?thesis by auto
qed

text \<open>In \<open>sample_hierarchy\<close> user \<open>u2\<close> is a member of the group in the identity store
  and its inferred owner: it is listed as the owner only.\<close>

theorem owners_and_members_disjoint_witness:
  "map owner_ids_of (h_groups sample_hierarchy) = [[''u2'']] \<and>
   map member_ids_of (h_groups sample_hierarchy) = [[''u1'']] \<and>
   Members lab = [''u1'', ''u2''] \<and>
   set (owner_ids_of (hd (h_groups sample_hierarchy))) \<inter>
     set (member_ids_of (hd (h_groups sample_hierarchy))) = {}"
proof -
  have ids: "map owner_ids_of (h_groups sample_hierarchy) = [[''u2'']] \<and>
    map member_ids_of (h_groups sample_hierarchy) = [[''u1'']] \<and> Members lab = [''u1'', ''u2'']"
    by code_simp
  then have "hd (h_groups sample_hierarchy) \<in> set (h_groups sample_hierarchy)"
    by (cases "h_groups sample_hierarchy") auto
  from owners_and_members_disjoint [OF this [unfolded sample_hierarchy_def]]
  have "set (owner_ids_of (hd (h_groups sample_hierarchy))) \<inter>
     set (member_ids_of (hd (h_groups sample_hierarchy))) = {}"
    by (simp add: sample_hierarchy_def)
  with ids show ?thesis by simp
qed


lemma set_dict_set: "set (dict_set d k v) \<subseteq> insert (k, v) (set d)"
  by (induction d) (auto split: if_splits)

lemma fetched_users_active:
  assumes "(uid, u) \<in> set (fold (\<lambda>x users. dict_set users (api_UserId x) (fetch_user x)) xs d)"
    and "\<forall>(k, v) \<in> set d. Active v"
  shows "Active u"
  using assms
proof (induction xs arbitrary: d)
  case Nil
  then show ?case by auto
next
  case (Cons x xs)
  have "\<forall>(k, v) \<in> set (dict_set d (api_UserId x) (fetch_user x)). Active v"
    using Cons.prems(2) set_dict_set [of d "api_UserId x" "fetch_user x"]
    by (auto simp: fetch_user_def)
  with Cons.IH Cons.prems(1) show ?case by simp
qed

lemma fetch_sso_users_active: "(uid, u) \<in> set (fetch_sso_users response) \<Longrightarrow> Active u"
  using fetched_users_active [of uid u _ "[]"]
  by (auto simp: fetch_sso_users_def split: option.splits)

lemma build_statuses:
  assumes "\<forall>(k, u) \<in> set users. Active u"
  shows "set (all_statuses (build_user_hierarchy users groups asg owners_of)) \<subseteq> {''Enabled''}"
proof -
  have owner: "m_status e = ''Enabled''" if "e \<in> set (build_group_owners users asg oids)" for e oids
    using that assms
    by (auto simp: build_group_owners_def owner_entry_def status_of_def
        split: option.splits dest!: map_of_SomeD [OF sym])
  have member: "m_status e = ''Enabled''" if "e \<in> set (build_group_members users oids mids)"
    for e oids mids
    using that assms
    by (auto simp: build_group_members_def member_entry_of_def status_of_def
        split: option.splits if_splits dest!: map_of_SomeD [OF sym])
  have root: "r_status e = ''Enabled''" if "e \<in> set (build_root_users users groups asg owners_of)" for e
    using that assms
    by (auto simp: build_root_users_def root_user_entry_def status_of_def Let_def)
  have grp: "m_status e = ''Enabled''"
    if "g \<in> set (build_group_hierarchy users groups asg owners_of)"
      and "e \<in> set (ge_owners g) \<or> e \<in> set (ge_members g)" for g e
    using group_hierarchy_entry [OF that(1)] that(2) owner member by auto
  show ?thesis
    using root grp by (auto simp: all_statuses_def build_user_hierarchy_def)
qed

lemma role_filter_statuses:
  "set (all_statuses (apply_role_filter role_match rf asg H)) \<subseteq> set (all_statuses H)"
  by (auto simp: all_statuses_def apply_role_filter_def)

text \<open>
  Claim C9. Every user entry of the hierarchy returned by \<open>get_users\<close>, a root user,
  an owner or a member, has status \<open>Enabled\<close>, and \<open>Disabled\<close> does not occur: the
  fetch of the users sets \<open>Active\<close> to true for each of them.
\<close>

theorem every_user_entry_enabled:
  "set (all_statuses (get_users_hierarchy role_match response fetched_groups fetched_assignments
          role_filter include_groups include_assignments)) \<subseteq> {''Enabled''} \<and>
   ''Disabled'' \<notin> set (all_statuses (get_users_hierarchy role_match response fetched_groups
          fetched_assignments role_filter include_groups include_assignments))"
proof -
  have active: "\<forall>(k, u) \<in> set (fetch_sso_users response). Active u"
    using fetch_sso_users_active by auto
  have "set (all_statuses (get_users_hierarchy role_match response fetched_groups fetched_assignments
          role_filter include_groups include_assignments)) \<subseteq> {''Enabled''}"
    unfolding get_users_hierarchy_def Let_def
    using build_statuses [OF active] role_filter_statuses
    by (cases "truthy role_filter") (simp_all, blast)
  then show ?thesis by auto
qed

text \<open>The three entries of \<open>sample_hierarchy\<close>.\<close>

theorem every_user_entry_enabled_witness:
  "all_statuses sample_hierarchy = [''Enabled'', ''Enabled'', ''Enabled''] \<and>
   ''Disabled'' \<notin> set (all_statuses sample_hierarchy)"
proof -
  have "all_statuses sample_hierarchy = [''Enabled'', ''Enabled'', ''Enabled'']" by code_simp
  then show ?thesis
    using every_user_entry_enabled [of always "Some api_users_sample" sample_groups lab_assignments
        None True True]
    by (simp add: sample_hierarchy_def)
qed

section \<open>Properties of the client cache\<close>

text \<open>
  A call that returns a client leaves it in the cache under its key, so the next call
  with the same arguments returns the same object; and two keys that differ in the
  institution alone are different.
\<close>

lemma map_of_dict_set: "map_of (dict_set d k v) k' = (if k' = k then Some v else map_of d k')"
  by (induction d) auto

lemma get_aws_client_cached:
  assumes "get_aws_client constructs st service institution region = (Some c, st')"
  shows "map_of (aws_clients_cache st') (cache_key service institution region) = Some c"
  using assms
  by (auto simp: get_aws_client_def Let_def map_of_dict_set split: option.splits if_splits)

lemma get_aws_client_idempotent:
  assumes "get_aws_client constructs st service institution region = (Some c, st')"
  shows "get_aws_client constructs st' service institution region = (Some c, st')"
  using get_aws_client_cached [OF assms] by (simp add: get_aws_client_def)

lemma cache_key_institution:
  "cache_key service institution region = cache_key service institution' region
     \<longleftrightarrow> institution = institution'"
  by (simp add: cache_key_def)

text \<open>
  Claim C2 fails where two triples have the same key. The key joins service,
  institution and region with underscores, so \<open>(s3, uni_lab, us-east-1)\<close> and
  \<open>(s3, uni, lab_us-east-1)\<close> both give \<open>s3_uni_lab_us-east-1\<close>: after a call for the
  first, a call for the second returns the same object, the client built with the
  credentials of \<open>uni_lab\<close>, although it asks for institution \<open>uni\<close>.
\<close>

theorem cache_key_collision_shares_client:
  "fst (get_aws_client constructs_all two_tenants ''s3'' ''uni_lab'' ''us-east-1'') =
   fst (get_aws_client constructs_all
          (snd (get_aws_client constructs_all two_tenants ''s3'' ''uni_lab'' ''us-east-1''))
          ''s3'' ''uni'' ''lab_us-east-1'') \<and>
   map_option client_key_id
     (fst (get_aws_client constructs_all
          (snd (get_aws_client constructs_all two_tenants ''s3'' ''uni_lab'' ''us-east-1''))
          ''s3'' ''uni'' ''lab_us-east-1'')) = Some ''AK-LAB''"
  by code_simp

section \<open>Properties of the tree walk\<close>

lemma top_level_Nil: "top_level [] = 0"
  by (simp add: top_level_def)

lemma top_level_append: "top_level (xs @ ys) = max (top_level xs) (top_level ys)"
proof -
  have "insert 0 (Level ` set (xs @ ys)) = insert 0 (Level ` set xs) \<union> insert 0 (Level ` set ys)"
    by auto
  then show ?thesis
    by (simp add: top_level_def Max_Un del: Un_insert_left Un_insert_right)
qed

lemma top_level_Cons: "top_level (x # xs) = max (Level x) (top_level xs)"
proof -
  have "top_level [x] = Level x" by (simp add: top_level_def)
  with top_level_append [of "[x]" xs] show ?thesis by simp
qed

lemmas top_level_simps = top_level_Nil top_level_Cons top_level_append

lemma max_ou_level_top_level: "max_ou_level xs = top_level xs"
  by (cases xs) (simp_all add: max_ou_level_def top_level_def)

lemma walk_levels:
  "(get_all_ous parent_id level pages = [] \<longleftrightarrow> depth pages = 0) \<and>
   top_level (get_all_ous parent_id level pages) =
     (if depth pages = 0 then 0 else level + depth pages - 1)"
  "(get_page_ous parent_id level units = [] \<longleftrightarrow> page_depth units = 0) \<and>
   top_level (get_page_ous parent_id level units) =
     (if page_depth units = 0 then 0 else level + page_depth units - 1)"
proof (induction parent_id level pages and parent_id level units
    rule: get_all_ous_get_page_ous.induct)
  case (1 parent_id level)
  show ?case by (simp add: top_level_simps)
next
  case (2 parent_id level page pages)
  then show ?case by (auto simp: top_level_simps max_def)
next
  case (3 parent_id level)
  show ?case by (simp add: top_level_simps)
next
  case (4 parent_id level i n below units)
  then show ?case by (auto simp: top_level_simps max_def)
qed

lemma walk_parents:
  "\<forall>r \<in> set (get_all_ous parent_id level pages).
     (ParentId r = parent_id \<and> Level r = level) \<or>
     (\<exists>p \<in> set (get_all_ous parent_id level pages). OuId p = ParentId r \<and> Level r = Level p + 1)"
  "\<forall>r \<in> set (get_page_ous parent_id level units).
     (ParentId r = parent_id \<and> Level r = level) \<or>
     (\<exists>p \<in> set (get_page_ous parent_id level units). OuId p = ParentId r \<and> Level r = Level p + 1)"
proof (induction parent_id level pages and parent_id level units
    rule: get_all_ous_get_page_ous.induct)
  case (1 parent_id level)
  show ?case by simp
next
  case (2 parent_id level page pages)
  then show ?case by (simp add: ball_Un) blast
next
  case (3 parent_id level)
  show ?case by simp
next
  case (4 parent_id level i n below units)
  let ?rec = "\<lparr> OuId = i, OuName = n, Level = level, ParentId = parent_id \<rparr>"
  let ?A = "get_all_ous i (level + 1) below"
  let ?B = "get_page_ous parent_id level units"
  have A: "\<forall>r \<in> set ?A. \<exists>p \<in> set (?rec # ?A @ ?B). OuId p = ParentId r \<and> Level r = Level p + 1"
  proof
    fix r assume r: "r \<in> set ?A"
    with 4(1) have "(ParentId r = i \<and> Level r = level + 1) \<or>
       (\<exists>p \<in> set ?A. OuId p = ParentId r \<and> Level r = Level p + 1)" by blast
    then show "\<exists>p \<in> set (?rec # ?A @ ?B). OuId p = ParentId r \<and> Level r = Level p + 1"
      by auto
  qed
  have B: "\<forall>r \<in> set ?B. (ParentId r = parent_id \<and> Level r = level) \<or>
      (\<exists>p \<in> set (?rec # ?A @ ?B). OuId p = ParentId r \<and> Level r = Level p + 1)"
    using 4(2) by auto
  show ?case using A B by (simp add: ball_Un)
qed

text \<open>
  Claim C5, as stated, fails: the walk starts at level \<open>0\<close> and gives this level to the
  units directly below the root, not to the root. A tree with a single unit has depth
  \<open>1\<close>; the unit is emitted with level \<open>0\<close> and \<open>max_ou_level\<close> is \<open>0\<close>.
\<close>

theorem top_level_unit_counterexample:
  "depth single_unit = 1 \<and>
   map Level (get_all_ous ''r-root'' 0 single_unit) = [0] \<and>
   max_ou_level (get_all_ous ''r-root'' 0 single_unit) \<noteq> depth single_unit"
  by code_simp

text \<open>
  Claim C5, amended. Every unit is emitted either with level \<open>0\<close> and the root as its
  parent, or with the level of an emitted unit whose id is its parent id, plus one;
  \<open>max_ou_level\<close> is the depth of the tree minus one, and \<open>0\<close> when there is no unit,
  which is when the depth is \<open>0\<close>.
\<close>

theorem ou_levels:
  "(\<forall>r \<in> set (get_all_ous root_id 0 pages).
      (ParentId r = root_id \<and> Level r = 0) \<or>
      (\<exists>p \<in> set (get_all_ous root_id 0 pages). OuId p = ParentId r \<and> Level r = Level p + 1)) \<and>
   max_ou_level (get_all_ous root_id 0 pages) = depth pages - 1 \<and>
   (get_all_ous root_id 0 pages = [] \<longleftrightarrow> depth pages = 0)"
  using walk_parents(1) [of root_id 0 pages] walk_levels(1) [of root_id 0 pages]
  by (simp add: max_ou_level_top_level)

text \<open>
  A tree of depth two: two units below the root, one of them with a unit below it.
\<close>

theorem ou_levels_witness:
  "map Level (get_all_ous ''r-root'' 0 three_units) = [0, 1, 0] \<and>
   map ParentId (get_all_ous ''r-root'' 0 three_units) = [''r-root'', ''ou-1'', ''r-root''] \<and>
   depth three_units = 2 \<and>
   max_ou_level (get_all_ous ''r-root'' 0 three_units) = 1"
proof -
  have ev: "map Level (get_all_ous ''r-root'' 0 three_units) = [0, 1, 0] \<and>
   map ParentId (get_all_ous ''r-root'' 0 three_units) = [''r-root'', ''ou-1'', ''r-root''] \<and>
   depth three_units = 2"
    by code_simp
  with ou_levels [of "''r-root''" three_units] show ?thesis by simp
qed

section \<open>Properties of the entry checks\<close>

text \<open>
  Claim C6, as stated, fails: without the inia module \<open>verify_email\<close> and
  \<open>reset_password\<close> answer that the module is missing before they look at the
  institution, and \<open>get_institutions\<close> takes an empty name as no name and lists the
  institutions.
\<close>

theorem unknown_institution_without_inia_counterexample:
  "\<not> validate_institution two_tenants ''other'' \<and>
   verify_email False two_tenants ''other'' sample_rest \<noteq> institution_not_found two_tenants ''other'' \<and>
   reset_password False two_tenants ''other'' sample_rest \<noteq> institution_not_found two_tenants ''other'' \<and>
   get_institutions two_tenants (Some '''') sample_rest \<noteq> institution_not_found two_tenants ''''"
  by code_simp

text \<open>
  Claim C6, amended. For an institution that is not in the credential store,
  \<open>get_projects\<close>, \<open>get_users\<close>, \<open>get_tags\<close> and \<open>check_budget\<close> answer with the
  institution-not-found failure whatever their other arguments are;
  \<open>get_institutions\<close> does so when the name is not empty; \<open>verify_email\<close> and
  \<open>reset_password\<close> do so when the inia module is available, and answer with the
  module-not-available failure when it is not.
\<close>

theorem unknown_institution_rejected:
  assumes "\<not> validate_institution st institution"
  shows "get_projects st institution rest = institution_not_found st institution \<and>
         get_users st institution rest = institution_not_found st institution \<and>
         get_tags st institution rest = institution_not_found st institution \<and>
         check_budget st institution rest = institution_not_found st institution \<and>
         (institution \<noteq> [] \<longrightarrow>
            get_institutions st (Some institution) rest = institution_not_found st institution) \<and>
         verify_email True st institution rest = institution_not_found st institution \<and>
         reset_password True st institution rest = institution_not_found st institution \<and>
         verify_email False st institution rest = Failure Inia_not_available \<and>
         reset_password False st institution rest = Failure Inia_not_available"
  using assms
  by (simp add: get_projects_def get_users_def get_tags_def check_budget_def get_institutions_def
      verify_email_def reset_password_def truthy_def)

text \<open>
  The institution \<open>other\<close> is not among the two tenants.
\<close>

theorem unknown_institution_rejected_witness:
  "\<not> validate_institution two_tenants ''other'' \<and>
   get_projects two_tenants ''other'' sample_rest =
     Failure (Institution_not_found ''other'' [''uni'', ''uni_lab'']) \<and>
   get_institutions two_tenants (Some ''other'') sample_rest =
     Failure (Institution_not_found ''other'' [''uni'', ''uni_lab'']) \<and>
   verify_email True two_tenants ''other'' sample_rest =
     Failure (Institution_not_found ''other'' [''uni'', ''uni_lab''])"
proof -
  have unknown: "\<not> validate_institution two_tenants ''other''" by code_simp
  have nf: "institution_not_found two_tenants ''other'' =
    Failure (Institution_not_found ''other'' [''uni'', ''uni_lab''])" by code_simp
  from unknown_institution_rejected [OF unknown, of sample_rest] unknown nf
  show ?thesis by simp
qed

section \<open>Properties of the date range\<close>

text \<open>
  Claim C7. Without both a start and an end date: with no period the range is the first
  day of the month of today up to today; with period \<open>past_month\<close>, for a valid today after
  January of year 1, it is the first and the last day of the month before.
\<close>

theorem date_range_resolution:
  assumes "\<not> (truthy start_date \<and> truthy end_date)"
  shows "get_date_range fromisoformat strptime today None start_date end_date =
           Inr (Date (year today) (month today) 1, today) \<and>
         (valid_date today \<and> (1 < year today \<or> 1 < month today) \<longrightarrow>
          get_date_range fromisoformat strptime today (Some ''past_month'') start_date end_date =
           Inr (Date (fst (previous_month today)) (snd (previous_month today)) 1,
                Date (fst (previous_month today)) (snd (previous_month today))
                  (days_in_month (fst (previous_month today)) (snd (previous_month today)))))"
  using assms
  by (auto simp: get_date_range_def replace_day_1_def minus_one_day_def previous_month_def
      valid_date_def days_in_month_def)

text \<open>
  On 2024-03-15 the default is 2024-03-01 to 2024-03-15 and \<open>past_month\<close> is
  2024-02-01 to 2024-02-29.
\<close>

theorem date_range_resolution_witness:
  "get_date_range no_parse no_parse (Date 2024 3 15) None None None =
     Inr (Date 2024 3 1, Date 2024 3 15) \<and>
   get_date_range no_parse no_parse (Date 2024 3 15) (Some ''past_month'') None None =
     Inr (Date 2024 2 1, Date 2024 2 29)"
proof -
  have a: "\<not> (truthy None \<and> truthy None)" by (simp add: truthy_def)
  have v: "valid_date (Date 2024 3 15) \<and> (1 < year (Date 2024 3 15) \<or> 1 < month (Date 2024 3 15))"
    by (simp add: valid_date_def days_in_month_def)
  from date_range_resolution [OF a, of no_parse no_parse "Date 2024 3 15"] v
  show ?thesis by (simp add: previous_month_def days_in_month_def is_leap_def)
qed

section \<open>Properties of the floating-point model\<close>













section \<open>Properties of the cost aggregation\<close>































lemma records_of_mset:
  "mset (records_of raw) = (\<Sum>r \<in># mset raw. mset (map (\<lambda>g. (Start r, g)) (Groups r)))"
  by (induction raw) (simp_all add: records_of_def)

lemma pages_permuted: "mset raw = mset raw' \<Longrightarrow> mset (records_of raw) = mset (records_of raw')"
  by (simp add: records_of_mset)




section \<open>Properties of the budget analysis\<close>
























end
